theory Spec2Isabelle
  imports Main "HOL-Library.Word"
begin

section \<open>Data model\<close>

text \<open>
  The runtime's \<open>SubscriptValue\<close> is a 64-bit signed integer; C's \<open>int\<close> (the \<open>dim\<close>,
  \<open>kind\<close>, \<open>line\<close> arguments and the allocation status) is a 32-bit one. Both are words,
  read through \<open>sint\<close> where the source compares them as signed numbers.
\<close>

type_synonym SubscriptValue = "64 word"

type_synonym c_int = "32 word"

text \<open>
  Modelled from the spec: the class \<open>Dimension\<close> and its accessors \<open>LowerBound\<close> and
  \<open>Extent\<close> are declared in descriptor.h, which is not among the sources. The spec
  gives each axis a signed lower bound and an extent.
\<close>

record Dimension =
  lower_bound :: SubscriptValue
  extent :: SubscriptValue

definition LowerBound :: "Dimension \<Rightarrow> SubscriptValue" where
  "LowerBound d = lower_bound d"

definition Extent :: "Dimension \<Rightarrow> SubscriptValue" where
  "Extent d = extent d"

text \<open>
  Modelled from the spec: \<open>Dimension::UpperBound\<close> is declared in descriptor.h, which is
  not among the sources. The spec gives it as lower bound + extent - 1, also for an
  extent of zero. The arithmetic is that of \<open>SubscriptValue\<close>.
\<close>

definition UpperBound :: "Dimension \<Rightarrow> SubscriptValue" where
  "UpperBound d = LowerBound d + Extent d - 1"

text \<open>
  Modelled from the spec: \<open>Dimension::SetBounds\<close> (descriptor.h) is the per-axis bound
  setter; it records the lower bound and the extent that puts the upper bound at
  \<open>upper\<close>, an empty range having extent 0.
\<close>

definition SetBounds :: "Dimension \<Rightarrow> SubscriptValue \<Rightarrow> SubscriptValue \<Rightarrow> Dimension" where
  "SetBounds d lower upper =
     d\<lparr>lower_bound := lower,
       extent := (if sint lower \<le> sint upper then upper - lower + 1 else 0)\<rparr>"

text \<open>
  Modelled from the spec: \<open>CppTypeFor<TypeCategory::Integer, KIND>\<close> is a type
  declaration of a header that is not among the sources; the spec gives the element
  types as the signed integers of 8, 16, 32, 64 and 128 bits. An element of an integer
  array is a value of one of them. A raw buffer is addressed by element index, as
  \<open>reinterpret_cast<T *>(p)[at]\<close> addresses it; it has no length of its own, as a
  \<open>void *\<close> has none.
\<close>

datatype elem =
  Int8_t "8 word"
| Int16_t "16 word"
| Int32_t "32 word"
| Int64_t "64 word"
| Int128_t "128 word"

type_synonym buffer = "nat \<Rightarrow> elem"

fun elem_bytes :: "elem \<Rightarrow> nat" where
  "elem_bytes (Int8_t w) = 1"
| "elem_bytes (Int16_t w) = 2"
| "elem_bytes (Int32_t w) = 4"
| "elem_bytes (Int64_t w) = 8"
| "elem_bytes (Int128_t w) = 16"

text \<open>The element read back as the signed integer it holds, and as its bit pattern.\<close>

fun elem_sint :: "elem \<Rightarrow> int" where
  "elem_sint (Int8_t w) = sint w"
| "elem_sint (Int16_t w) = sint w"
| "elem_sint (Int32_t w) = sint w"
| "elem_sint (Int64_t w) = sint w"
| "elem_sint (Int128_t w) = sint w"

fun elem_uint :: "elem \<Rightarrow> int" where
  "elem_uint (Int8_t w) = uint w"
| "elem_uint (Int16_t w) = uint w"
| "elem_uint (Int32_t w) = uint w"
| "elem_uint (Int64_t w) = uint w"
| "elem_uint (Int128_t w) = uint w"

text \<open>
  Modelled from the spec: the class \<open>Descriptor\<close> with \<open>rank\<close> and \<open>GetDimension\<close> is
  declared in descriptor.h, which is not among the sources. It is kept as far as the
  inquiry functions read or build it: the per-axis bounds, as many as the rank, the
  integer kind it was established with, and the storage (\<open>None\<close> for a null base
  address).
\<close>

record Descriptor =
  raw_dim :: "Dimension list"
  integer_kind :: c_int
  base_addr :: "buffer option"

definition rank :: "Descriptor \<Rightarrow> int" where
  "rank d = int (length (raw_dim d))"

definition GetDimension :: "Descriptor \<Rightarrow> nat \<Rightarrow> Dimension" where
  "GetDimension d i = raw_dim d ! i"

text \<open>
  Modelled from the spec: \<open>common::maxRank\<close> is a constant of a header that is not
  among the sources; the spec calls it a small compile-time bound on the rank. Fortran
  2018 fixes it at 15.
\<close>

definition maxRank :: int where
  "maxRank = 15"

text \<open>
  Descriptors live in a store and are passed by reference, so that a call which is
  handed the same object twice is a case of the model.
\<close>

type_synonym addr = nat

type_synonym heap = "addr \<Rightarrow> Descriptor"

subsection \<open>Fatal termination\<close>

text \<open>
  Modelled from the spec: the \<open>Terminator\<close> (terminator.h) holds the source location
  for the diagnostic; \<open>Crash\<close> and a failed \<open>INTERNAL_CHECK\<close> end the process and
  do not return. A call that ends so has the value \<open>Inl\<close> of the diagnostic: for
  \<open>Crash\<close> the location, the format string and its integer arguments; for a failed
  check the text of the condition; for the dispatch on an unrecognized kind tag the
  location and the tag. A store through a null pointer is no diagnostic, but it is no
  return either.
\<close>

record Terminator =
  sourceFileName :: string
  sourceLine :: c_int

datatype fatal =
  Crash Terminator string "int list"
| CheckFailed string
| UnrecognizedKind Terminator c_int
| NullDereference

fun returned :: "fatal + 'a \<Rightarrow> 'a option" where
  "returned (Inl e) = None"
| "returned (Inr v) = Some v"

section \<open>The scalar inquiries\<close>

definition LboundDim ::
  "heap \<Rightarrow> addr \<Rightarrow> c_int \<Rightarrow> string \<Rightarrow> c_int \<Rightarrow> fatal + (64 word \<times> heap)" where
  "LboundDim h array dim sourceFile line =
     (if sint dim < 1 \<or> sint dim > rank (h array) then
        Inl (Crash \<lparr>sourceFileName = sourceFile, sourceLine = line\<rparr>
               ''SIZE: bad DIM=%d for ARRAY with rank=%d'' [sint dim, rank (h array)])
      else
        let dimension = GetDimension (h array) (nat (sint dim - 1))
        in Inr (LowerBound dimension, h))"

function Size_loop :: "Descriptor \<Rightarrow> nat \<Rightarrow> 64 word \<Rightarrow> 64 word" where
  "Size_loop array i result =
     (if int i < rank array then
        Size_loop array (i + 1) (result * Extent (GetDimension array i))
      else result)"
  by pat_completeness auto
termination
  by (relation "measure (\<lambda>(array, i, result). length (raw_dim array) - i)")
     (auto simp: rank_def)

declare Size_loop.simps [simp del]

definition Size :: "heap \<Rightarrow> addr \<Rightarrow> string \<Rightarrow> c_int \<Rightarrow> 64 word \<times> heap" where
  "Size h array sourceFile line = (Size_loop (h array) 0 1, h)"

definition SizeDim ::
  "heap \<Rightarrow> addr \<Rightarrow> c_int \<Rightarrow> string \<Rightarrow> c_int \<Rightarrow> fatal + (64 word \<times> heap)" where
  "SizeDim h array dim sourceFile line =
     (if sint dim < 1 \<or> sint dim > rank (h array) then
        Inl (Crash \<lparr>sourceFileName = sourceFile, sourceLine = line\<rparr>
               ''SIZE: bad DIM=%d for ARRAY with rank=%d'' [sint dim, rank (h array)])
      else
        let dimension = GetDimension (h array) (nat (sint dim - 1))
        in Inr (Extent dimension, h))"

section \<open>The kind-polymorphic store\<close>

text \<open>
  The template parameter \<open>KIND\<close> of \<open>RawStoreIntegerAt\<close> ranges over the integer kinds
  the dispatch instantiates it at, the byte widths 1, 2, 4, 8 and 16.
\<close>

datatype KIND = KIND_1 | KIND_2 | KIND_4 | KIND_8 | KIND_16

fun KIND_bytes :: "KIND \<Rightarrow> nat" where
  "KIND_bytes KIND_1 = 1"
| "KIND_bytes KIND_2 = 2"
| "KIND_bytes KIND_4 = 4"
| "KIND_bytes KIND_8 = 8"
| "KIND_bytes KIND_16 = 16"

text \<open>
  The assignment \<open>element = value\<close> converts the \<open>std::int64_t\<close> to
  \<open>CppTypeFor<TypeCategory::Integer, KIND>\<close>, the signed integer of \<open>KIND\<close> bytes:
  the conversion keeps the low bits for a narrower type and extends the sign for a
  wider one.
\<close>

fun convert_int64 :: "KIND \<Rightarrow> 64 word \<Rightarrow> elem" where
  "convert_int64 KIND_1 v = Int8_t (scast v)"
| "convert_int64 KIND_2 v = Int16_t (scast v)"
| "convert_int64 KIND_4 v = Int32_t (scast v)"
| "convert_int64 KIND_8 v = Int64_t (scast v)"
| "convert_int64 KIND_16 v = Int128_t (scast v)"

definition RawStoreIntegerAt :: "KIND \<Rightarrow> buffer \<Rightarrow> nat \<Rightarrow> 64 word \<Rightarrow> buffer" where
  "RawStoreIntegerAt K contiguousIntegerArray at v =
     contiguousIntegerArray(at := convert_int64 K v)"

text \<open>
  Modelled from the spec: \<open>StoreIntegerAt\<close> (tools.h) is the store of the same
  dispatch into the storage of a descriptor, at a zero-based element index. A store
  through a null base address is no behaviour of the program; the model names it.
\<close>

definition StoreIntegerAt :: "KIND \<Rightarrow> Descriptor \<Rightarrow> nat \<Rightarrow> 64 word \<Rightarrow> fatal + Descriptor" where
  "StoreIntegerAt K result at v =
     (case base_addr result of
        None \<Rightarrow> Inl NullDereference
      | Some storage \<Rightarrow> Inr (result\<lparr>base_addr := Some (RawStoreIntegerAt K storage at v)\<rparr>))"

text \<open>
  Modelled from the spec: \<open>ApplyIntegerKind\<close> (tools.h) is the closed dispatch on the
  kind tag, given by the spec as a switch over the byte widths 1, 2, 4, 8 and 16 that
  runs the functor instantiated at that width; any other tag is fatal, reported
  through the terminator it is handed, and nothing is returned to the caller.
\<close>

definition ApplyIntegerKind ::
  "(KIND \<Rightarrow> fatal + 'a) \<Rightarrow> c_int \<Rightarrow> Terminator \<Rightarrow> fatal + 'a" where
  "ApplyIntegerKind FUNC kind terminator =
     (if kind = 1 then FUNC KIND_1
      else if kind = 2 then FUNC KIND_2
      else if kind = 4 then FUNC KIND_4
      else if kind = 8 then FUNC KIND_8
      else if kind = 16 then FUNC KIND_16
      else Inl (UnrecognizedKind terminator kind))"

section \<open>The upper bounds vector\<close>

text \<open>
  Modelled from the spec: \<open>Descriptor::Establish\<close> (descriptor.h) initialises a
  descriptor with the given integer kind, rank and extents and a null base address.
  The lower bounds it leaves are those of a C descriptor, zero; the only caller
  overwrites the one it leaves with \<open>SetBounds\<close> before it is read.
\<close>

definition Establish :: "c_int \<Rightarrow> nat \<Rightarrow> SubscriptValue list \<Rightarrow> Descriptor" where
  "Establish kind rnk extents =
     \<lparr>raw_dim = map (\<lambda>e. \<lparr>lower_bound = 0, extent = e\<rparr>) (take rnk extents),
      integer_kind = kind,
      base_addr = None\<rparr>"

text \<open>
  Modelled from the spec: \<open>Descriptor::Allocate\<close> asks the external allocator for the
  storage and returns its status, 0 for success. The allocator is outside the program:
  its answer, the status and the block it hands out, is a parameter of the call.
\<close>

record Allocator =
  alloc_stat :: c_int
  alloc_block :: buffer

definition Allocate :: "Allocator \<Rightarrow> Descriptor \<Rightarrow> c_int \<times> Descriptor" where
  "Allocate allocator d =
     (if alloc_stat allocator = 0 then (0, d\<lparr>base_addr := Some (alloc_block allocator)\<rparr>)
      else (alloc_stat allocator, d))"

text \<open>The lambda \<open>storeIntegerAt\<close> of \<open>Ubound\<close>: it captures the result by reference.\<close>

definition storeIntegerAt ::
  "heap \<Rightarrow> addr \<Rightarrow> c_int \<Rightarrow> Terminator \<Rightarrow> nat \<Rightarrow> 64 word \<Rightarrow> fatal + heap" where
  "storeIntegerAt h result kind terminator atIndex v =
     (case ApplyIntegerKind (\<lambda>K. StoreIntegerAt K (h result) atIndex v) kind terminator of
        Inl e \<Rightarrow> Inl e
      | Inr d \<Rightarrow> Inr (h(result := d)))"

lemma storeIntegerAt_raw_dim:
  "storeIntegerAt h result kind terminator atIndex v = Inr h' \<Longrightarrow>
   \<forall>a. raw_dim (h' a) = raw_dim (h a)"
  by (auto simp: storeIntegerAt_def ApplyIntegerKind_def StoreIntegerAt_def
      split: sum.splits if_splits option.splits)

function Ubound_loop ::
  "heap \<Rightarrow> addr \<Rightarrow> addr \<Rightarrow> c_int \<Rightarrow> Terminator \<Rightarrow> nat \<Rightarrow> fatal + heap" where
  "Ubound_loop h result array kind terminator i =
     (if int i < rank (h array) then
        let dimension = GetDimension (h array) i
        in (case storeIntegerAt h result kind terminator i (UpperBound dimension) of
              Inl e \<Rightarrow> Inl e
            | Inr h' \<Rightarrow> Ubound_loop h' result array kind terminator (i + 1))
      else Inr h)"
  by pat_completeness auto
termination
  by (relation "measure (\<lambda>(h, result, array, kind, terminator, i).
        length (raw_dim (h array)) - i)")
     (auto simp: rank_def dest: storeIntegerAt_raw_dim)

declare Ubound_loop.simps [simp del]

definition Ubound ::
  "Allocator \<Rightarrow> heap \<Rightarrow> addr \<Rightarrow> addr \<Rightarrow> c_int \<Rightarrow> string \<Rightarrow> c_int \<Rightarrow> fatal + heap" where
  "Ubound allocator h result array kind sourceFile line =
     (let extent = [word_of_int (rank (h array))];
          h1 = h(result := Establish kind 1 extent);
          h2 = h1(result := (h1 result)\<lparr>raw_dim := (raw_dim (h1 result))
                  [0 := SetBounds (GetDimension (h1 result) 0) 1
                          (word_of_int (rank (h1 array)))]\<rparr>);
          terminator = \<lparr>sourceFileName = sourceFile, sourceLine = line\<rparr>;
          (stat, d) = Allocate allocator (h2 result);
          h3 = h2(result := d)
      in if stat \<noteq> 0 then
           Inl (Crash terminator ''UBOUND: could not allocate memory for result; STAT=%d''
                  [sint stat])
         else if rank (h3 result) \<noteq> 1 then Inl (CheckFailed ''result.rank() == 1'')
         else Ubound_loop h3 result array kind terminator 0)"

section \<open>The extents vector\<close>

function Shape_loop ::
  "buffer \<Rightarrow> Descriptor \<Rightarrow> c_int \<Rightarrow> Terminator \<Rightarrow> nat \<Rightarrow> fatal + buffer" where
  "Shape_loop result array kind terminator i =
     (if int i < rank array then
        let dimension = GetDimension array i
        in (case ApplyIntegerKind
                   (\<lambda>K. Inr (RawStoreIntegerAt K result i (Extent dimension)))
                   kind terminator of
              Inl e \<Rightarrow> Inl e
            | Inr result' \<Rightarrow> Shape_loop result' array kind terminator (i + 1))
      else Inr result)"
  by pat_completeness auto
termination
  by (relation "measure (\<lambda>(result, array, kind, terminator, i).
        length (raw_dim array) - i)")
     (auto simp: rank_def)

declare Shape_loop.simps [simp del]

definition Shape :: "heap \<Rightarrow> buffer \<Rightarrow> addr \<Rightarrow> c_int \<Rightarrow> fatal + (buffer \<times> heap)" where
  "Shape h result array kind =
     (let terminator = \<lparr>sourceFileName = ''flang/runtime/inquiry.cpp'', sourceLine = 89\<rparr>
      in if \<not> rank (h array) \<le> maxRank then
           Inl (CheckFailed ''array.rank() <= common::maxRank'')
         else (case Shape_loop result (h array) kind terminator 0 of
                 Inl e \<Rightarrow> Inl e
               | Inr result' \<Rightarrow> Inr (result', h)))"

section \<open>Example inputs\<close>

text \<open>
  An array of rank 2 with bounds 1..5 on the first axis and 0..2 on the second, and an
  array of rank 1 with bounds 1..200, each in a store that holds it at every address;
  a buffer of zero bytes; an allocator that succeeds and one that reports status 12.
\<close>

definition scenario_array :: Descriptor where
  "scenario_array =
     \<lparr>raw_dim = [\<lparr>lower_bound = 1, extent = 5\<rparr>, \<lparr>lower_bound = 0, extent = 3\<rparr>],
      integer_kind = 4, base_addr = None\<rparr>"

definition scenario_heap :: heap where
  "scenario_heap = (\<lambda>a. scenario_array)"

definition wide_array :: Descriptor where
  "wide_array =
     \<lparr>raw_dim = [\<lparr>lower_bound = 1, extent = 200\<rparr>], integer_kind = 4, base_addr = None\<rparr>"

definition wide_heap :: heap where
  "wide_heap = (\<lambda>a. wide_array)"

definition blank_buffer :: buffer where
  "blank_buffer = (\<lambda>j. Int8_t 0)"

definition ok_allocator :: Allocator where
  "ok_allocator = \<lparr>alloc_stat = 0, alloc_block = blank_buffer\<rparr>"

definition failing_allocator :: Allocator where
  "failing_allocator = \<lparr>alloc_stat = 12, alloc_block = blank_buffer\<rparr>"

text \<open>
  What it is for a descriptor to be, after a call, as it was before: the same rank, the
  same lower bound and the same extent on every axis, and the same base address, so
  that its storage has not been released (the runtime nulls the base address of a
  descriptor whose storage it frees).
\<close>

definition descriptor_kept :: "Descriptor \<Rightarrow> Descriptor \<Rightarrow> bool" where
  "descriptor_kept before after \<longleftrightarrow>
     rank after = rank before
   \<and> map LowerBound (raw_dim after) = map LowerBound (raw_dim before)
   \<and> map Extent (raw_dim after) = map Extent (raw_dim before)
   \<and> base_addr after = base_addr before"

text \<open>
  The store as \<open>Ubound\<close> has it once the allocation has succeeded and before the
  loop: the result established with one axis, its bounds set, its storage allocated.
\<close>

definition established :: "Allocator \<Rightarrow> heap \<Rightarrow> addr \<Rightarrow> addr \<Rightarrow> c_int \<Rightarrow> heap" where
  "established allocator h result array kind =
     h(result :=
       \<lparr>raw_dim = [SetBounds \<lparr>lower_bound = 0, extent = word_of_int (rank (h array))\<rparr> 1
                     (if result = array then 1 else word_of_int (rank (h array)))],
        integer_kind = kind,
        base_addr = Some (alloc_block allocator)\<rparr>)"

section \<open>Helper facts: the conversion and the dispatch\<close>

lemma ApplyIntegerKind_recognized:
  "ApplyIntegerKind FUNC (of_nat (KIND_bytes K)) terminator = FUNC K"
  by (cases K) (simp_all add: ApplyIntegerKind_def)

lemma ApplyIntegerKind_unrecognized:
  "kind \<notin> {1, 2, 4, 8, 16} \<Longrightarrow>
   ApplyIntegerKind FUNC kind terminator = Inl (UnrecognizedKind terminator kind)"
  by (simp add: ApplyIntegerKind_def)

lemma recognized_kind_cases:
  assumes "kind \<in> {1, 2, 4, 8, 16 :: c_int}"
  obtains K where "kind = of_nat (KIND_bytes K)" and "int (KIND_bytes K) = sint kind"
proof -
  from assms consider "kind = 1" | "kind = 2" | "kind = 4" | "kind = 8" | "kind = 16"
    by auto
  then show thesis
  proof cases
    case 1 then show thesis using that [of KIND_1] by simp
  next
    case 2 then show thesis using that [of KIND_2] by simp
  next
    case 3 then show thesis using that [of KIND_4] by simp
  next
    case 4 then show thesis using that [of KIND_8] by simp
  next
    case 5 then show thesis using that [of KIND_16] by simp
  qed
qed

lemma KIND_bytes_4: "int (KIND_bytes K) = 4 \<Longrightarrow> K = KIND_4"
  by (cases K) simp_all

lemma elem_bytes_convert_int64: "elem_bytes (convert_int64 K v) = KIND_bytes K"
  by (cases K) simp_all

lemma elem_sint_convert_int64:
  "elem_sint (convert_int64 K v) = signed_take_bit (8 * KIND_bytes K - 1) (sint v)"
proof (cases K)
  case KIND_8
  have "signed_take_bit 63 (sint v) = sint (scast v :: 64 word)"
    by (simp only: signed_scast_eq) simp
  then show ?thesis
    using KIND_8 by simp
qed (simp_all add: signed_scast_eq)

lemma uint_scast_mod:
  "uint (scast (v :: 64 word) :: 'a::len word) = sint v mod 2 ^ LENGTH('a)"
  by (simp only: scast_eq uint_word_of_int)

lemma elem_uint_convert_int64:
  "elem_uint (convert_int64 K v) = sint v mod 2 ^ (8 * KIND_bytes K)"
proof (cases K)
  case KIND_1
  then show ?thesis using uint_scast_mod [of v, where 'a = 8] by simp
next
  case KIND_2
  then show ?thesis using uint_scast_mod [of v, where 'a = 16] by simp
next
  case KIND_4
  then show ?thesis using uint_scast_mod [of v, where 'a = 32] by simp
next
  case KIND_8
  then show ?thesis using uint_scast_mod [of v, where 'a = 64] by simp
next
  case KIND_16
  then show ?thesis using uint_scast_mod [of v, where 'a = 128] by simp
qed

lemma storeIntegerAt_recognized:
  assumes "base_addr (h result) = Some storage"
  shows "storeIntegerAt h result (of_nat (KIND_bytes K)) terminator at v =
           Inr (h(result := (h result)\<lparr>base_addr := Some (storage(at := convert_int64 K v))\<rparr>))"
  using assms
  by (simp add: storeIntegerAt_def ApplyIntegerKind_recognized StoreIntegerAt_def
      RawStoreIntegerAt_def)

lemma storeIntegerAt_unrecognized:
  assumes "kind \<notin> {1, 2, 4, 8, 16}"
  shows "storeIntegerAt h result kind terminator at v = Inl (UnrecognizedKind terminator kind)"
  using assms by (simp add: storeIntegerAt_def ApplyIntegerKind_unrecognized)

lemma storeIntegerAt_location:
  "storeIntegerAt h result kind t1 at v = Inr h' \<longleftrightarrow>
   storeIntegerAt h result kind t2 at v = Inr h'"
  by (auto simp: storeIntegerAt_def ApplyIntegerKind_def StoreIntegerAt_def
      split: sum.splits option.splits)

lemma storeIntegerAt_returned_location:
  "returned (storeIntegerAt h result kind t1 at v) =
   returned (storeIntegerAt h result kind t2 at v)"
proof (cases "storeIntegerAt h result kind t1 at v")
  case (Inl e)
  then have "\<forall>h'. storeIntegerAt h result kind t2 at v \<noteq> Inr h'"
    using storeIntegerAt_location [of h result kind t1 at v _ t2] by simp
  then obtain e' where "storeIntegerAt h result kind t2 at v = Inl e'"
    by (cases "storeIntegerAt h result kind t2 at v") auto
  with Inl show ?thesis by simp
next
  case (Inr h')
  then have "storeIntegerAt h result kind t2 at v = Inr h'"
    using storeIntegerAt_location [of h result kind t1 at v h' t2] by simp
  with Inr show ?thesis by simp
qed

section \<open>Helper facts: the loops\<close>

lemma Size_loop_drop:
  "Size_loop array i acc = acc * prod_list (map Extent (drop i (raw_dim array)))"
proof (induction array i acc rule: Size_loop.induct)
  case (1 array i result)
  show ?case
  proof (cases "int i < rank array")
    case True
    then have lt: "i < length (raw_dim array)"
      by (simp add: rank_def)
    have "Size_loop array i result =
            Size_loop array (i + 1) (result * Extent (GetDimension array i))"
      using True by (subst Size_loop.simps) simp
    also have "\<dots> = result * Extent (GetDimension array i)
                 * prod_list (map Extent (drop (i + 1) (raw_dim array)))"
      using "1.IH" [OF True] .
    also have "\<dots> = result * prod_list (map Extent (drop i (raw_dim array)))"
      using lt by (simp add: Cons_nth_drop_Suc [symmetric] GetDimension_def mult.assoc)
    finally show ?thesis .
  next
    case False
    then have "drop i (raw_dim array) = []"
      by (simp add: rank_def)
    moreover have "Size_loop array i result = result"
      using False by (subst Size_loop.simps) simp
    ultimately show ?thesis by simp
  qed
qed

lemma prod_list_word_of_int:
  "(prod_list ws :: 64 word) = word_of_int (prod_list (map sint ws))"
  by (induction ws) simp_all

lemma sint_prod_list:
  "sint (prod_list ws :: 64 word) = signed_take_bit 63 (prod_list (map sint ws))"
  by (subst prod_list_word_of_int) (simp add: sint_sbintrunc')

lemma Shape_loop_recognized:
  "kind = of_nat (KIND_bytes K) \<Longrightarrow>
   Shape_loop result array kind terminator i =
     Inr (\<lambda>j. if i \<le> j \<and> j < length (raw_dim array)
              then convert_int64 K (extent (raw_dim array ! j)) else result j)"
proof (induction result array kind terminator i rule: Shape_loop.induct)
  case (1 result array kind terminator i)
  show ?case
  proof (cases "int i < rank array")
    case True
    let ?result' = "RawStoreIntegerAt K result i (Extent (GetDimension array i))"
    have disp: "ApplyIntegerKind
          (\<lambda>K. Inr (RawStoreIntegerAt K result i (Extent (GetDimension array i))))
          kind terminator = Inr ?result'"
      using "1.prems" by (simp add: ApplyIntegerKind_recognized)
    have "Shape_loop result array kind terminator i =
            Shape_loop ?result' array kind terminator (i + 1)"
      by (subst Shape_loop.simps) (simp add: True disp)
    also have "\<dots> = Inr (\<lambda>j. if i + 1 \<le> j \<and> j < length (raw_dim array)
              then convert_int64 K (extent (raw_dim array ! j)) else ?result' j)"
      using "1.IH" [OF True refl disp "1.prems"] .
    also have "(\<lambda>j. if i + 1 \<le> j \<and> j < length (raw_dim array)
              then convert_int64 K (extent (raw_dim array ! j)) else ?result' j)
            = (\<lambda>j. if i \<le> j \<and> j < length (raw_dim array)
              then convert_int64 K (extent (raw_dim array ! j)) else result j)"
      using True
      by (auto simp: fun_eq_iff RawStoreIntegerAt_def Extent_def GetDimension_def rank_def)
    finally show ?thesis .
  next
    case False
    then have "Shape_loop result array kind terminator i = Inr result"
      by (subst Shape_loop.simps) simp
    moreover from False have "length (raw_dim array) \<le> i"
      by (simp add: rank_def)
    ultimately show ?thesis by (auto simp: fun_eq_iff)
  qed
qed

lemma Shape_loop_unrecognized:
  assumes "kind \<notin> {1, 2, 4, 8, 16}" and "int i < rank array"
  shows "Shape_loop result array kind terminator i = Inl (UnrecognizedKind terminator kind)"
  using assms
  by (subst Shape_loop.simps) (simp add: ApplyIntegerKind_unrecognized)

lemma Shape_recognized:
  assumes "rank (h array) \<le> maxRank" and "kind = of_nat (KIND_bytes K)"
  shows "Shape h result array kind =
     Inr (\<lambda>j. if j < length (raw_dim (h array))
              then convert_int64 K (extent (raw_dim (h array) ! j)) else result j, h)"
  using assms(1) by (simp add: Shape_def Shape_loop_recognized [OF assms(2)])

lemma Ubound_loop_recognized:
  "kind = of_nat (KIND_bytes K) \<Longrightarrow> base_addr (h result) = Some storage \<Longrightarrow>
   Ubound_loop h result array kind terminator i =
     Inr (h(result := (h result)\<lparr>base_addr := Some
       (\<lambda>j. if i \<le> j \<and> j < length (raw_dim (h array))
            then convert_int64 K (UpperBound (raw_dim (h array) ! j)) else storage j)\<rparr>))"
proof (induction h result array kind terminator i arbitrary: storage rule: Ubound_loop.induct)
  case (1 h result array kind terminator i)
  let ?n = "length (raw_dim (h array))"
  show ?case
  proof (cases "int i < rank (h array)")
    case True
    let ?v = "UpperBound (GetDimension (h array) i)"
    let ?storage' = "storage(i := convert_int64 K ?v)"
    let ?h' = "h(result := (h result)\<lparr>base_addr := Some ?storage'\<rparr>)"
    have st: "storeIntegerAt h result kind terminator i ?v = Inr ?h'"
      using "1.prems" by (simp add: storeIntegerAt_recognized)
    have dims: "raw_dim (?h' array) = raw_dim (h array)"
      by simp
    have base: "base_addr (?h' result) = Some ?storage'"
      by simp
    have "Ubound_loop h result array kind terminator i =
            Ubound_loop ?h' result array kind terminator (i + 1)"
      by (subst Ubound_loop.simps) (simp add: True st Let_def)
    also have "\<dots> = Inr (?h'(result := (?h' result)\<lparr>base_addr := Some
       (\<lambda>j. if i + 1 \<le> j \<and> j < length (raw_dim (?h' array))
            then convert_int64 K (UpperBound (raw_dim (?h' array) ! j)) else ?storage' j)\<rparr>))"
      using "1.IH" [OF True refl st "1.prems"(1) base] .
    also have "(\<lambda>j. if i + 1 \<le> j \<and> j < length (raw_dim (?h' array))
            then convert_int64 K (UpperBound (raw_dim (?h' array) ! j)) else ?storage' j)
          = (\<lambda>j. if i \<le> j \<and> j < ?n
            then convert_int64 K (UpperBound (raw_dim (h array) ! j)) else storage j)"
      unfolding dims using True
      by (auto simp: fun_eq_iff GetDimension_def rank_def)
    also have "?h'(result := (?h' result)\<lparr>base_addr := Some g\<rparr>)
             = h(result := (h result)\<lparr>base_addr := Some g\<rparr>)" for g
      by (simp add: fun_eq_iff)
    finally show ?thesis .
  next
    case False
    then have "Ubound_loop h result array kind terminator i = Inr h"
      by (subst Ubound_loop.simps) simp
    moreover from False have "?n \<le> i"
      by (simp add: rank_def)
    then have "(\<lambda>j. if i \<le> j \<and> j < ?n
            then convert_int64 K (UpperBound (raw_dim (h array) ! j)) else storage j) = storage"
      by (auto simp: fun_eq_iff)
    moreover have "h(result := (h result)\<lparr>base_addr := Some storage\<rparr>) = h"
      using "1.prems"(2) by (auto simp: fun_eq_iff)
    ultimately show ?thesis
      by simp
  qed
qed

lemma Ubound_loop_unrecognized:
  assumes "kind \<notin> {1, 2, 4, 8, 16}"
  shows "Ubound_loop h result array kind terminator i =
           (if int i < rank (h array) then Inl (UnrecognizedKind terminator kind) else Inr h)"
  using assms
  by (subst Ubound_loop.simps) (simp add: storeIntegerAt_unrecognized Let_def)

lemma Ubound_loop_location:
  "returned (Ubound_loop h result array kind t1 i) =
   returned (Ubound_loop h result array kind t2 i)"
proof (induction h result array kind t1 i rule: Ubound_loop.induct)
  case (1 h result array kind t1 i)
  let ?v = "UpperBound (GetDimension (h array) i)"
  show ?case
  proof (cases "int i < rank (h array)")
    case False
    then show ?thesis
      by (simp add: Ubound_loop.simps [of h result array kind _ i])
  next
    case True
    show ?thesis
    proof (cases "storeIntegerAt h result kind t1 i ?v")
      case (Inl e)
      then have "returned (storeIntegerAt h result kind t2 i ?v) = None"
        using storeIntegerAt_returned_location [of h result kind t1 i ?v t2] by simp
      then obtain e' where "storeIntegerAt h result kind t2 i ?v = Inl e'"
        by (cases "storeIntegerAt h result kind t2 i ?v") auto
      with Inl True show ?thesis
        by (simp add: Ubound_loop.simps [of h result array kind _ i])
    next
      case (Inr h')
      then have two: "storeIntegerAt h result kind t2 i ?v = Inr h'"
        using storeIntegerAt_location [of h result kind t1 i ?v h' t2] by simp
      have "returned (Ubound_loop h' result array kind t1 (i + 1)) =
            returned (Ubound_loop h' result array kind t2 (i + 1))"
        using "1.IH" [OF True refl Inr] .
      with Inr two True show ?thesis
        by (simp add: Ubound_loop.simps [of h result array kind _ i])
    qed
  qed
qed

section \<open>Helper facts: the upper bounds vector before its loop\<close>

lemma Ubound_allocation_failed:
  assumes "alloc_stat allocator \<noteq> 0"
  shows "Ubound allocator h result array kind sourceFile line =
           Inl (Crash \<lparr>sourceFileName = sourceFile, sourceLine = line\<rparr>
                  ''UBOUND: could not allocate memory for result; STAT=%d''
                  [sint (alloc_stat allocator)])"
  using assms by (simp add: Ubound_def Allocate_def Let_def)

lemma Ubound_allocated:
  assumes "alloc_stat allocator = 0"
  shows "Ubound allocator h result array kind sourceFile line =
           Ubound_loop (established allocator h result array kind) result array kind
             \<lparr>sourceFileName = sourceFile, sourceLine = line\<rparr> 0"
  using assms
  by (simp add: Ubound_def Allocate_def Let_def Establish_def established_def rank_def
      GetDimension_def)

lemma base_addr_established:
  "base_addr (established allocator h result array kind result) = Some (alloc_block allocator)"
  by (simp add: established_def)

lemma established_other:
  "a \<noteq> result \<Longrightarrow> established allocator h result array kind a = h a"
  by (simp add: established_def)

lemma rank_established_array:
  "0 < rank (h array) \<Longrightarrow> 0 < rank (established allocator h result array kind array)"
  by (simp add: established_def rank_def)

lemma sint_word_of_rank:
  assumes "0 \<le> r" and "r \<le> maxRank"
  shows "sint (word_of_int r :: 64 word) = r"
proof -
  from assms have "- (2 ^ 63) \<le> r" and "r < 2 ^ 63"
    by (simp_all add: maxRank_def)
  then show ?thesis
    by (simp add: sint_sbintrunc' signed_take_bit_int_eq_self)
qed

lemma SetBounds_rank:
  assumes "0 \<le> r" and "r \<le> maxRank"
  shows "SetBounds d 1 (word_of_int r) = \<lparr>lower_bound = 1, extent = word_of_int r\<rparr>"
proof (cases "r = 0")
  case True
  then show ?thesis
    by (simp add: SetBounds_def)
next
  case False
  with assms have "sint (1 :: 64 word) \<le> sint (word_of_int r :: 64 word)"
    by (simp add: sint_word_of_rank)
  then show ?thesis
    by (simp add: SetBounds_def)
qed

lemma established_result:
  assumes "result \<noteq> array" and "rank (h array) \<le> maxRank"
  shows "established allocator h result array kind result =
           \<lparr>raw_dim = [\<lparr>lower_bound = 1, extent = word_of_int (rank (h array))\<rparr>],
            integer_kind = kind,
            base_addr = Some (alloc_block allocator)\<rparr>"
proof -
  have "0 \<le> rank (h array)"
    by (simp add: rank_def)
  then show ?thesis
    using assms by (simp add: established_def SetBounds_rank)
qed

lemma Ubound_recognized:
  assumes "alloc_stat allocator = 0" and "kind = of_nat (KIND_bytes K)"
  shows "Ubound allocator h result array kind sourceFile line =
     Inr ((established allocator h result array kind)
       (result := (established allocator h result array kind result)\<lparr>base_addr := Some
         (\<lambda>j. if j < length (raw_dim (established allocator h result array kind array))
            then convert_int64 K
                   (UpperBound (raw_dim (established allocator h result array kind array) ! j))
            else alloc_block allocator j)\<rparr>))"
  unfolding Ubound_allocated [OF assms(1)]
  by (simp add: Ubound_loop_recognized [OF assms(2) base_addr_established])

lemma Ubound_unrecognized:
  assumes "alloc_stat allocator = 0" and "kind \<notin> {1, 2, 4, 8, 16}"
  shows "Ubound allocator h result array kind sourceFile line =
     (if 0 < rank (established allocator h result array kind array)
      then Inl (UnrecognizedKind \<lparr>sourceFileName = sourceFile, sourceLine = line\<rparr> kind)
      else Inr (established allocator h result array kind))"
  unfolding Ubound_allocated [OF assms(1)]
  by (simp add: Ubound_loop_unrecognized [OF assms(2)])

section \<open>Helper facts: the example inputs\<close>

lemma rank_scenario: "rank (scenario_heap a) = 2"
  by (simp add: scenario_heap_def scenario_array_def rank_def)

lemma rank_wide: "rank (wide_heap a) = 1"
  by (simp add: wide_heap_def wide_array_def rank_def)

section \<open>Lower bound and extent of one axis\<close>

text \<open>
  C3. For a descriptor of rank r and a one-based \<open>dim\<close> with 1 \<le> dim \<le> r,
  \<open>LboundDim\<close> returns the lower bound of axis dim - 1 and \<open>SizeDim\<close> returns the
  extent of axis dim - 1, each as a 64-bit integer; the store is returned as it was.
\<close>

theorem LboundDim_SizeDim_in_range:
  assumes lo: "1 \<le> sint dim" and hi: "sint dim \<le> rank (h array)"
  shows "LboundDim h array dim sourceFile line =
           Inr (lower_bound (raw_dim (h array) ! nat (sint dim - 1)), h)
       \<and> SizeDim h array dim sourceFile line =
           Inr (extent (raw_dim (h array) ! nat (sint dim - 1)), h)"
proof -
  from lo hi have ok: "\<not> (sint dim < 1 \<or> sint dim > rank (h array))"
    by simp
  have "LboundDim h array dim sourceFile line =
          Inr (LowerBound (GetDimension (h array) (nat (sint dim - 1))), h)"
    unfolding LboundDim_def using ok by (simp add: Let_def)
  moreover have "SizeDim h array dim sourceFile line =
          Inr (Extent (GetDimension (h array) (nat (sint dim - 1))), h)"
    unfolding SizeDim_def using ok by (simp add: Let_def)
  ultimately show ?thesis
    by (simp add: LowerBound_def Extent_def GetDimension_def)
qed

theorem LboundDim_SizeDim_in_range_witness:
  "1 \<le> sint (2 :: c_int) \<and> sint (2 :: c_int) \<le> rank (scenario_heap 0)
   \<and> LboundDim scenario_heap 0 2 ''a.f90'' 7 = Inr (0, scenario_heap)
   \<and> SizeDim scenario_heap 0 2 ''a.f90'' 7 = Inr (3, scenario_heap)"
  using LboundDim_SizeDim_in_range [of 2 scenario_heap 0 "''a.f90''" 7]
  by (simp add: rank_scenario) (simp add: scenario_heap_def scenario_array_def)

text \<open>
  C4. \<open>LboundDim\<close> and \<open>SizeDim\<close> end fatally, returning no value, exactly when
  dim < 1 or dim > rank; the diagnostic then carries the caller's source location and,
  as its arguments, the offending \<open>dim\<close> and the rank of the array. For dim within
  1..rank the call returns.
\<close>

theorem DIM_out_of_range_is_fatal:
  "(returned (LboundDim h array dim sourceFile line) = None
      \<longleftrightarrow> sint dim < 1 \<or> sint dim > rank (h array))
 \<and> (returned (SizeDim h array dim sourceFile line) = None
      \<longleftrightarrow> sint dim < 1 \<or> sint dim > rank (h array))
 \<and> (sint dim < 1 \<or> sint dim > rank (h array) \<longrightarrow>
      LboundDim h array dim sourceFile line =
        Inl (Crash \<lparr>sourceFileName = sourceFile, sourceLine = line\<rparr>
               ''SIZE: bad DIM=%d for ARRAY with rank=%d'' [sint dim, rank (h array)])
    \<and> SizeDim h array dim sourceFile line =
        Inl (Crash \<lparr>sourceFileName = sourceFile, sourceLine = line\<rparr>
               ''SIZE: bad DIM=%d for ARRAY with rank=%d'' [sint dim, rank (h array)]))"
proof (cases "sint dim < 1 \<or> sint dim > rank (h array)")
  case True
  then show ?thesis
    by (simp add: LboundDim_def SizeDim_def)
next
  case False
  then show ?thesis
    by (simp add: LboundDim_def SizeDim_def Let_def)
qed

theorem DIM_out_of_range_is_fatal_witness:
  "LboundDim scenario_heap 0 0 ''a.f90'' 7 =
     Inl (Crash \<lparr>sourceFileName = ''a.f90'', sourceLine = 7\<rparr>
            ''SIZE: bad DIM=%d for ARRAY with rank=%d'' [0, 2])
 \<and> SizeDim scenario_heap 0 3 ''a.f90'' 7 =
     Inl (Crash \<lparr>sourceFileName = ''a.f90'', sourceLine = 7\<rparr>
            ''SIZE: bad DIM=%d for ARRAY with rank=%d'' [3, 2])
 \<and> returned (LboundDim scenario_heap 0 3 ''a.f90'' 7) = None
 \<and> returned (LboundDim scenario_heap 0 1 ''a.f90'' 7) \<noteq> None
 \<and> returned (SizeDim scenario_heap 0 2 ''a.f90'' 7) \<noteq> None"
  using DIM_out_of_range_is_fatal [of scenario_heap 0 0 "''a.f90''" 7]
    DIM_out_of_range_is_fatal [of scenario_heap 0 3 "''a.f90''" 7]
    DIM_out_of_range_is_fatal [of scenario_heap 0 1 "''a.f90''" 7]
    DIM_out_of_range_is_fatal [of scenario_heap 0 2 "''a.f90''" 7]
  by (simp add: rank_scenario)

section \<open>Total size\<close>

text \<open>
  C2. \<open>Size\<close> returns the product of the extents of all axes, accumulated in a 64-bit
  integer from the initial value 1: it is the product taken in 64-bit arithmetic, read
  as a signed number it is the product of the signed extents reduced to 64 bits in two's
  complement, and for rank 0 it is 1.
\<close>

theorem Size_is_product:
  "Size h array sourceFile line = (prod_list (map extent (raw_dim (h array))), h)
 \<and> sint (fst (Size h array sourceFile line)) =
     signed_take_bit 63 (prod_list (map (\<lambda>d. sint (extent d)) (raw_dim (h array))))
 \<and> (rank (h array) = 0 \<longrightarrow> fst (Size h array sourceFile line) = 1)"
proof -
  have ext: "Extent = extent"
    by (rule ext) (simp add: Extent_def)
  have eq: "Size h array sourceFile line = (prod_list (map extent (raw_dim (h array))), h)"
    by (simp add: Size_def Size_loop_drop ext)
  have "sint (prod_list (map extent (raw_dim (h array)))) =
          signed_take_bit 63 (prod_list (map (\<lambda>d. sint (extent d)) (raw_dim (h array))))"
    by (simp add: sint_prod_list comp_def)
  with eq show ?thesis
    by (simp add: rank_def)
qed

theorem Size_is_product_witness:
  "Size scenario_heap 0 ''a.f90'' 7 = (15, scenario_heap)
 \<and> sint (fst (Size scenario_heap 0 ''a.f90'' 7)) = 15
 \<and> rank ((\<lambda>a. \<lparr>raw_dim = [], integer_kind = 4, base_addr = None\<rparr>) (0 :: addr)) = 0
 \<and> fst (Size (\<lambda>a. \<lparr>raw_dim = [], integer_kind = 4, base_addr = None\<rparr>) 0 ''a.f90'' 7) = 1"
  using Size_is_product [of scenario_heap 0 "''a.f90''" 7]
    Size_is_product [of "\<lambda>a. \<lparr>raw_dim = [], integer_kind = 4, base_addr = None\<rparr>" 0 "''a.f90''" 7]
  by (simp add: rank_def scenario_heap_def scenario_array_def)

section \<open>The store converts without a range check\<close>

text \<open>
  C10. The store converts without a range check. For a kind of w < 8 bytes and a 64-bit
  signed value v, the element written by \<open>RawStoreIntegerAt\<close> has width w, its bit
  pattern is v mod 2 ^ (8 w), and read back as a signed number it is v reduced to 8 w
  bits in two's complement, which is v itself exactly when v fits; the dispatch returns
  normally whether or not it fits.
\<close>

theorem RawStoreIntegerAt_truncates:
  assumes "KIND_bytes K < 8"
  shows "elem_bytes (RawStoreIntegerAt K buf at v at) = KIND_bytes K
       \<and> elem_uint (RawStoreIntegerAt K buf at v at) = sint v mod 2 ^ (8 * KIND_bytes K)
       \<and> elem_sint (RawStoreIntegerAt K buf at v at) =
           signed_take_bit (8 * KIND_bytes K - 1) (sint v)
       \<and> (elem_sint (RawStoreIntegerAt K buf at v at) = sint v \<longleftrightarrow>
            - (2 ^ (8 * KIND_bytes K - 1)) \<le> sint v \<and> sint v < 2 ^ (8 * KIND_bytes K - 1))
       \<and> ApplyIntegerKind (\<lambda>K. Inr (RawStoreIntegerAt K buf at v))
           (of_nat (KIND_bytes K)) terminator = Inr (RawStoreIntegerAt K buf at v)"
proof -
  have stored: "RawStoreIntegerAt K buf at v at = convert_int64 K v"
    by (simp add: RawStoreIntegerAt_def)
  show ?thesis
    unfolding stored
    by (simp only: elem_bytes_convert_int64 elem_uint_convert_int64 elem_sint_convert_int64
        ApplyIntegerKind_recognized signed_take_bit_int_eq_self_iff simp_thms)
qed

theorem RawStoreIntegerAt_truncates_witness:
  "KIND_bytes KIND_1 < 8
 \<and> elem_uint (RawStoreIntegerAt KIND_1 (\<lambda>j. Int8_t 0) 0 300 0) = 44
 \<and> elem_sint (RawStoreIntegerAt KIND_1 (\<lambda>j. Int8_t 0) 0 200 0) = - 56
 \<and> ApplyIntegerKind (\<lambda>K. Inr (RawStoreIntegerAt K (\<lambda>j. Int8_t 0) 0 200)) 1
      \<lparr>sourceFileName = ''a.f90'', sourceLine = 7\<rparr>
    = Inr (RawStoreIntegerAt KIND_1 (\<lambda>j. Int8_t 0) 0 200)"
  using RawStoreIntegerAt_truncates [of KIND_1 "\<lambda>j. Int8_t 0" 0 300]
    RawStoreIntegerAt_truncates [of KIND_1 "\<lambda>j. Int8_t 0" 0 200
      "\<lparr>sourceFileName = ''a.f90'', sourceLine = 7\<rparr>"]
  by (simp add: signed_take_bit_eq_take_bit_minus)

section \<open>The dispatch on the kind tag\<close>

text \<open>
  C7. In the dispatch a kind tag outside 1, 2, 4, 8, 16 is fatal: \<open>ApplyIntegerKind\<close>
  ends with the diagnostic of the terminator it was handed and returns nothing, so
  \<open>Shape\<close> and \<open>Ubound\<close> end fatally at the first axis they store. For a kind tag
  in the set the dispatch performs one store, at the index given and of the width the
  tag names, into the raw buffer or into the storage of the descriptor.
\<close>

theorem ApplyIntegerKind_closed_dispatch:
  "(kind \<notin> {1, 2, 4, 8, 16} \<longrightarrow>
      ApplyIntegerKind FUNC kind terminator = Inl (UnrecognizedKind terminator kind)
    \<and> storeIntegerAt h result kind terminator at v = Inl (UnrecognizedKind terminator kind)
    \<and> (0 < rank (h array) \<and> rank (h array) \<le> maxRank \<longrightarrow>
         Shape h buf array kind =
           Inl (UnrecognizedKind
                 \<lparr>sourceFileName = ''flang/runtime/inquiry.cpp'', sourceLine = 89\<rparr> kind))
    \<and> (0 < rank (h array) \<and> alloc_stat allocator = 0 \<longrightarrow>
         Ubound allocator h result array kind sourceFile line =
           Inl (UnrecognizedKind \<lparr>sourceFileName = sourceFile, sourceLine = line\<rparr> kind)))
 \<and> (kind \<in> {1, 2, 4, 8, 16} \<longrightarrow>
      (\<exists>K. int (KIND_bytes K) = sint kind
         \<and> ApplyIntegerKind (\<lambda>K. Inr (RawStoreIntegerAt K buf at v)) kind terminator =
             Inr (buf(at := convert_int64 K v))
         \<and> elem_bytes (convert_int64 K v) = KIND_bytes K
         \<and> (base_addr d = Some storage \<longrightarrow>
              ApplyIntegerKind (\<lambda>K. StoreIntegerAt K d at v) kind terminator =
                Inr (d\<lparr>base_addr := Some (storage(at := convert_int64 K v))\<rparr>))))"
proof (cases "kind \<in> {1, 2, 4, 8, 16}")
  case False
  have shape: "Shape h buf array kind =
           Inl (UnrecognizedKind
                 \<lparr>sourceFileName = ''flang/runtime/inquiry.cpp'', sourceLine = 89\<rparr> kind)"
    if "0 < rank (h array)" "rank (h array) \<le> maxRank"
    using that False by (simp add: Shape_def Shape_loop_unrecognized)
  have ubound: "Ubound allocator h result array kind sourceFile line =
           Inl (UnrecognizedKind \<lparr>sourceFileName = sourceFile, sourceLine = line\<rparr> kind)"
    if "0 < rank (h array)" "alloc_stat allocator = 0"
    using that False
    by (simp add: Ubound_allocated Ubound_loop_unrecognized rank_established_array)
  from False shape ubound show ?thesis
    by (simp add: ApplyIntegerKind_unrecognized storeIntegerAt_unrecognized)
next
  case True
  then obtain K where K: "kind = of_nat (KIND_bytes K)" "int (KIND_bytes K) = sint kind"
    by (rule recognized_kind_cases)
  have "ApplyIntegerKind (\<lambda>K. Inr (RawStoreIntegerAt K buf at v)) kind terminator =
             Inr (buf(at := convert_int64 K v))"
    by (simp add: K(1) ApplyIntegerKind_recognized RawStoreIntegerAt_def)
  moreover have "ApplyIntegerKind (\<lambda>K. StoreIntegerAt K d at v) kind terminator =
                Inr (d\<lparr>base_addr := Some (storage(at := convert_int64 K v))\<rparr>)"
    if "base_addr d = Some storage"
    using that
    by (simp add: K(1) ApplyIntegerKind_recognized StoreIntegerAt_def RawStoreIntegerAt_def)
  ultimately show ?thesis
    using True K(2) elem_bytes_convert_int64 [of K v] by blast
qed

theorem ApplyIntegerKind_closed_dispatch_witness:
  "(3 :: c_int) \<notin> {1, 2, 4, 8, 16} \<and> (4 :: c_int) \<in> {1, 2, 4, 8, 16}
 \<and> ApplyIntegerKind (\<lambda>K. Inr (RawStoreIntegerAt K blank_buffer 0 5)) 3
      \<lparr>sourceFileName = ''a.f90'', sourceLine = 7\<rparr> =
     Inl (UnrecognizedKind \<lparr>sourceFileName = ''a.f90'', sourceLine = 7\<rparr> 3)
 \<and> Shape scenario_heap blank_buffer 0 3 =
     Inl (UnrecognizedKind
           \<lparr>sourceFileName = ''flang/runtime/inquiry.cpp'', sourceLine = 89\<rparr> 3)
 \<and> Ubound ok_allocator scenario_heap 1 0 3 ''a.f90'' 7 =
     Inl (UnrecognizedKind \<lparr>sourceFileName = ''a.f90'', sourceLine = 7\<rparr> 3)
 \<and> ApplyIntegerKind (\<lambda>K. Inr (RawStoreIntegerAt K blank_buffer 0 5)) 4
      \<lparr>sourceFileName = ''a.f90'', sourceLine = 7\<rparr> =
     Inr (blank_buffer(0 := Int32_t 5))"
proof -
  let ?t = "\<lparr>sourceFileName = ''a.f90'', sourceLine = 7\<rparr>"
  have no: "(3 :: c_int) \<notin> {1, 2, 4, 8, 16}" and yes: "(4 :: c_int) \<in> {1, 2, 4, 8, 16}"
    by simp_all
  have pre: "0 < rank (scenario_heap 0)" "rank (scenario_heap 0) \<le> maxRank"
    "alloc_stat ok_allocator = 0"
    by (simp_all add: rank_scenario maxRank_def ok_allocator_def)
  from ApplyIntegerKind_closed_dispatch
    [where kind = 3 and FUNC = "\<lambda>K. Inr (RawStoreIntegerAt K blank_buffer 0 5)"
      and terminator = ?t and h = scenario_heap and array = 0 and buf = blank_buffer
      and allocator = ok_allocator and result = 1 and sourceFile = "''a.f90''" and line = 7]
    no pre
  have fatal: "ApplyIntegerKind (\<lambda>K. Inr (RawStoreIntegerAt K blank_buffer 0 5)) 3 ?t =
     Inl (UnrecognizedKind ?t 3)"
    "Shape scenario_heap blank_buffer 0 3 =
     Inl (UnrecognizedKind
           \<lparr>sourceFileName = ''flang/runtime/inquiry.cpp'', sourceLine = 89\<rparr> 3)"
    "Ubound ok_allocator scenario_heap 1 0 3 ''a.f90'' 7 = Inl (UnrecognizedKind ?t 3)"
    by blast+
  from ApplyIntegerKind_closed_dispatch
    [where kind = 4 and terminator = ?t and buf = blank_buffer and at = 0 and v = 5] yes
  obtain K where bytes: "int (KIND_bytes K) = sint (4 :: c_int)"
    and store: "ApplyIntegerKind (\<lambda>K. Inr (RawStoreIntegerAt K blank_buffer 0 5)) 4 ?t =
             Inr (blank_buffer(0 := convert_int64 K 5))"
    by blast
  from bytes have "K = KIND_4"
    by (simp add: KIND_bytes_4)
  with store have "ApplyIntegerKind (\<lambda>K. Inr (RawStoreIntegerAt K blank_buffer 0 5)) 4 ?t =
             Inr (blank_buffer(0 := Int32_t 5))"
    by simp
  with no yes fatal show ?thesis
    by (simp only: simp_thms)
qed

section \<open>The extents vector: results\<close>

text \<open>
  C5, amended. For a descriptor of rank r within \<open>maxRank\<close> and a kind tag among
  1, 2, 4, 8, 16, \<open>Shape\<close> returns, with the store unchanged and nothing allocated; the
  buffer holds at position i < r the extent of axis i + 1 converted to the width of the
  kind: read back it is the extent reduced to that width in two's complement, equal to
  it exactly when it fits. The positions from r on are as they were.
\<close>

theorem Shape_writes_extents:
  assumes wf: "rank (h array) \<le> maxRank"
    and recognized: "kind \<in> {1, 2, 4, 8, 16}"
  shows "\<exists>K result'.
      Shape h result array kind = Inr (result', h)
    \<and> int (KIND_bytes K) = sint kind
    \<and> (\<forall>i. i < length (raw_dim (h array)) \<longrightarrow>
          result' i = convert_int64 K (extent (raw_dim (h array) ! i))
        \<and> elem_bytes (result' i) = KIND_bytes K
        \<and> elem_sint (result' i) =
            signed_take_bit (8 * KIND_bytes K - 1) (sint (extent (raw_dim (h array) ! i)))
        \<and> (elem_sint (result' i) = sint (extent (raw_dim (h array) ! i)) \<longleftrightarrow>
              - (2 ^ (8 * KIND_bytes K - 1)) \<le> sint (extent (raw_dim (h array) ! i))
            \<and> sint (extent (raw_dim (h array) ! i)) < 2 ^ (8 * KIND_bytes K - 1)))
    \<and> (\<forall>i. length (raw_dim (h array)) \<le> i \<longrightarrow> result' i = result i)"
proof -
  from recognized obtain K
    where K: "kind = of_nat (KIND_bytes K)" and bytes: "int (KIND_bytes K) = sint kind"
    by (rule recognized_kind_cases)
  let ?result' = "\<lambda>j. if j < length (raw_dim (h array))
              then convert_int64 K (extent (raw_dim (h array) ! j)) else result j"
  have run: "Shape h result array kind = Inr (?result', h)"
    by (rule Shape_recognized [where h = h and array = array, OF wf K])
  have written: "\<forall>i. i < length (raw_dim (h array)) \<longrightarrow>
          ?result' i = convert_int64 K (extent (raw_dim (h array) ! i))
        \<and> elem_bytes (?result' i) = KIND_bytes K
        \<and> elem_sint (?result' i) =
            signed_take_bit (8 * KIND_bytes K - 1) (sint (extent (raw_dim (h array) ! i)))
        \<and> (elem_sint (?result' i) = sint (extent (raw_dim (h array) ! i)) \<longleftrightarrow>
              - (2 ^ (8 * KIND_bytes K - 1)) \<le> sint (extent (raw_dim (h array) ! i))
            \<and> sint (extent (raw_dim (h array) ! i)) < 2 ^ (8 * KIND_bytes K - 1))"
    by (simp add: elem_bytes_convert_int64 elem_sint_convert_int64
        signed_take_bit_int_eq_self_iff)
  have rest: "\<forall>i. length (raw_dim (h array)) \<le> i \<longrightarrow> ?result' i = result i"
    by simp
  from run bytes written rest show ?thesis
    by blast
qed

theorem Shape_writes_extents_witness:
  "rank (scenario_heap 0) \<le> maxRank \<and> (4 :: c_int) \<in> {1, 2, 4, 8, 16}
 \<and> (\<exists>result'. Shape scenario_heap blank_buffer 0 4 = Inr (result', scenario_heap)
       \<and> result' 0 = Int32_t 5 \<and> result' 1 = Int32_t 3 \<and> result' 2 = blank_buffer 2)"
proof -
  have wf: "rank (scenario_heap 0) \<le> maxRank"
    by (simp add: rank_scenario maxRank_def)
  have kind: "(4 :: c_int) \<in> {1, 2, 4, 8, 16}"
    by simp
  have dims: "raw_dim (scenario_heap 0) =
      [\<lparr>lower_bound = 1, extent = 5\<rparr>, \<lparr>lower_bound = 0, extent = 3\<rparr>]"
    by (simp add: scenario_heap_def scenario_array_def)
  from Shape_writes_extents
    [where h = scenario_heap and array = 0 and result = blank_buffer, OF wf kind]
  obtain K result' where run: "Shape scenario_heap blank_buffer 0 4 = Inr (result', scenario_heap)"
    and bytes: "int (KIND_bytes K) = sint (4 :: c_int)"
    and written: "\<And>i. i < length (raw_dim (scenario_heap 0)) \<Longrightarrow>
          result' i = convert_int64 K (extent (raw_dim (scenario_heap 0) ! i))"
    and rest: "\<And>i. length (raw_dim (scenario_heap 0)) \<le> i \<Longrightarrow> result' i = blank_buffer i"
    by blast
  from bytes have K: "K = KIND_4"
    by (simp add: KIND_bytes_4)
  have "result' 0 = Int32_t 5" "result' 1 = Int32_t 3"
    using written [of 0] written [of 1] by (simp_all add: dims K)
  moreover have "result' 2 = blank_buffer 2"
    using rest [of 2] by (simp add: dims)
  ultimately show ?thesis
    using wf kind run by blast
qed

text \<open>
  Where the claim as written fails: with kind 1 the extent 200 is stored as -56.
\<close>

theorem Shape_narrow_kind_counterexample:
  "map_option (\<lambda>(result', h'). elem_sint (result' 0))
     (returned (Shape wide_heap blank_buffer 0 1)) = Some (- 56)
 \<and> sint (extent (raw_dim (wide_heap 0) ! 0)) = 200"
  using Shape_recognized [of wide_heap 0 1 KIND_1 blank_buffer]
  by (simp add: rank_wide maxRank_def) (simp add: wide_heap_def wide_array_def)

section \<open>The upper bounds vector: results\<close>

text \<open>
  C1, amended. For an input descriptor of rank r within \<open>maxRank\<close>, a kind tag among
  1, 2, 4, 8, 16, an allocator that reports status 0 and a result descriptor that is
  not the input descriptor, \<open>Ubound\<close> returns, and the result descriptor has rank 1,
  the given kind, lower bound 1 and extent r; its storage holds at position i < r the
  upper bound of axis i + 1, lower bound + extent - 1 in 64-bit arithmetic, converted to
  the width of the kind: read back it is that value reduced to the width in two's
  complement, equal to it exactly when it fits. An axis of extent 0 gives lower bound - 1.
\<close>

theorem Ubound_result:
  assumes distinct: "result \<noteq> array"
    and allocated: "alloc_stat allocator = 0"
    and recognized: "kind \<in> {1, 2, 4, 8, 16}"
    and wf: "rank (h array) \<le> maxRank"
  shows "\<exists>h' K storage.
      Ubound allocator h result array kind sourceFile line = Inr h'
    \<and> int (KIND_bytes K) = sint kind
    \<and> rank (h' result) = 1
    \<and> integer_kind (h' result) = kind
    \<and> lower_bound (GetDimension (h' result) 0) = 1
    \<and> sint (extent (GetDimension (h' result) 0)) = rank (h array)
    \<and> base_addr (h' result) = Some storage
    \<and> (\<forall>i. i < length (raw_dim (h array)) \<longrightarrow>
          storage i = convert_int64 K
            (lower_bound (raw_dim (h array) ! i) + extent (raw_dim (h array) ! i) - 1)
        \<and> elem_bytes (storage i) = KIND_bytes K
        \<and> elem_sint (storage i) = signed_take_bit (8 * KIND_bytes K - 1)
            (sint (lower_bound (raw_dim (h array) ! i) + extent (raw_dim (h array) ! i) - 1))
        \<and> (elem_sint (storage i) =
              sint (lower_bound (raw_dim (h array) ! i) + extent (raw_dim (h array) ! i) - 1)
            \<longleftrightarrow>
              - (2 ^ (8 * KIND_bytes K - 1))
                \<le> sint (lower_bound (raw_dim (h array) ! i) + extent (raw_dim (h array) ! i) - 1)
            \<and> sint (lower_bound (raw_dim (h array) ! i) + extent (raw_dim (h array) ! i) - 1)
                < 2 ^ (8 * KIND_bytes K - 1))
        \<and> (extent (raw_dim (h array) ! i) = 0 \<longrightarrow>
              storage i = convert_int64 K (lower_bound (raw_dim (h array) ! i) - 1)))"
proof -
  from recognized obtain K
    where K: "kind = of_nat (KIND_bytes K)" and bytes: "int (KIND_bytes K) = sint kind"
    by (rule recognized_kind_cases)
  let ?e = "established allocator h result array kind"
  let ?storage = "\<lambda>j. if j < length (raw_dim (h array))
            then convert_int64 K (UpperBound (raw_dim (h array) ! j))
            else alloc_block allocator j"
  let ?h' = "?e(result := (?e result)\<lparr>base_addr := Some ?storage\<rparr>)"
  have arr: "?e array = h array"
    using distinct by (simp add: established_other)
  have run: "Ubound allocator h result array kind sourceFile line = Inr ?h'"
    unfolding Ubound_recognized [OF allocated K] arr ..
  have res: "?h' result =
      \<lparr>raw_dim = [\<lparr>lower_bound = 1, extent = word_of_int (rank (h array))\<rparr>],
       integer_kind = kind, base_addr = Some ?storage\<rparr>"
    using distinct wf by (simp add: established_result)
  have r0: "0 \<le> rank (h array)"
    by (simp add: rank_def)
  have shape: "rank (?h' result) = 1" "integer_kind (?h' result) = kind"
    "lower_bound (GetDimension (?h' result) 0) = 1"
    "base_addr (?h' result) = Some ?storage"
    unfolding res by (simp_all add: rank_def GetDimension_def)
  have len: "sint (extent (GetDimension (?h' result) 0)) = rank (h array)"
    unfolding res by (simp add: GetDimension_def sint_word_of_rank [OF r0 wf])
  have elems: "?storage i = convert_int64 K
            (lower_bound (raw_dim (h array) ! i) + extent (raw_dim (h array) ! i) - 1)"
    if "i < length (raw_dim (h array))" for i
    using that by (simp add: UpperBound_def LowerBound_def Extent_def)
  have "\<forall>i. i < length (raw_dim (h array)) \<longrightarrow>
          ?storage i = convert_int64 K
            (lower_bound (raw_dim (h array) ! i) + extent (raw_dim (h array) ! i) - 1)
        \<and> elem_bytes (?storage i) = KIND_bytes K
        \<and> elem_sint (?storage i) = signed_take_bit (8 * KIND_bytes K - 1)
            (sint (lower_bound (raw_dim (h array) ! i) + extent (raw_dim (h array) ! i) - 1))
        \<and> (elem_sint (?storage i) =
              sint (lower_bound (raw_dim (h array) ! i) + extent (raw_dim (h array) ! i) - 1)
            \<longleftrightarrow>
              - (2 ^ (8 * KIND_bytes K - 1))
                \<le> sint (lower_bound (raw_dim (h array) ! i) + extent (raw_dim (h array) ! i) - 1)
            \<and> sint (lower_bound (raw_dim (h array) ! i) + extent (raw_dim (h array) ! i) - 1)
                < 2 ^ (8 * KIND_bytes K - 1))
        \<and> (extent (raw_dim (h array) ! i) = 0 \<longrightarrow>
              ?storage i = convert_int64 K (lower_bound (raw_dim (h array) ! i) - 1))"
  proof (intro allI impI)
    fix i assume "i < length (raw_dim (h array))"
    note e = elems [OF this]
    show "?storage i = convert_int64 K
            (lower_bound (raw_dim (h array) ! i) + extent (raw_dim (h array) ! i) - 1)
        \<and> elem_bytes (?storage i) = KIND_bytes K
        \<and> elem_sint (?storage i) = signed_take_bit (8 * KIND_bytes K - 1)
            (sint (lower_bound (raw_dim (h array) ! i) + extent (raw_dim (h array) ! i) - 1))
        \<and> (elem_sint (?storage i) =
              sint (lower_bound (raw_dim (h array) ! i) + extent (raw_dim (h array) ! i) - 1)
            \<longleftrightarrow>
              - (2 ^ (8 * KIND_bytes K - 1))
                \<le> sint (lower_bound (raw_dim (h array) ! i) + extent (raw_dim (h array) ! i) - 1)
            \<and> sint (lower_bound (raw_dim (h array) ! i) + extent (raw_dim (h array) ! i) - 1)
                < 2 ^ (8 * KIND_bytes K - 1))
        \<and> (extent (raw_dim (h array) ! i) = 0 \<longrightarrow>
              ?storage i = convert_int64 K (lower_bound (raw_dim (h array) ! i) - 1))"
      unfolding e
      by (simp only: elem_bytes_convert_int64 elem_sint_convert_int64
          signed_take_bit_int_eq_self_iff simp_thms) simp
  qed
  with run bytes shape len show ?thesis
    by blast
qed

theorem Ubound_result_witness:
  "(1 :: addr) \<noteq> 0 \<and> alloc_stat ok_allocator = 0 \<and> (4 :: c_int) \<in> {1, 2, 4, 8, 16}
 \<and> rank (scenario_heap 0) \<le> maxRank
 \<and> (\<exists>h' storage. Ubound ok_allocator scenario_heap 1 0 4 ''a.f90'' 7 = Inr h'
       \<and> rank (h' 1) = 1
       \<and> lower_bound (GetDimension (h' 1) 0) = 1
       \<and> sint (extent (GetDimension (h' 1) 0)) = 2
       \<and> base_addr (h' 1) = Some storage
       \<and> storage 0 = Int32_t 5 \<and> storage 1 = Int32_t 2)"
proof -
  have distinct: "(1 :: addr) \<noteq> 0"
    by simp
  have allocated: "alloc_stat ok_allocator = 0"
    by (simp add: ok_allocator_def)
  have wf: "rank (scenario_heap 0) \<le> maxRank"
    by (simp add: rank_scenario maxRank_def)
  have kind: "(4 :: c_int) \<in> {1, 2, 4, 8, 16}"
    by simp
  have dims: "raw_dim (scenario_heap 0) =
      [\<lparr>lower_bound = 1, extent = 5\<rparr>, \<lparr>lower_bound = 0, extent = 3\<rparr>]"
    by (simp add: scenario_heap_def scenario_array_def)
  from Ubound_result
    [where h = scenario_heap and array = 0 and sourceFile = "''a.f90''" and line = 7,
      OF distinct allocated kind wf]
  obtain h' K storage
    where run: "Ubound ok_allocator scenario_heap 1 0 4 ''a.f90'' 7 = Inr h'"
    and bytes: "int (KIND_bytes K) = sint (4 :: c_int)"
    and shape: "rank (h' 1) = 1" "lower_bound (GetDimension (h' 1) 0) = 1"
      "sint (extent (GetDimension (h' 1) 0)) = rank (scenario_heap 0)"
      "base_addr (h' 1) = Some storage"
    and written: "\<And>i. i < length (raw_dim (scenario_heap 0)) \<Longrightarrow>
          storage i = convert_int64 K
            (lower_bound (raw_dim (scenario_heap 0) ! i)
               + extent (raw_dim (scenario_heap 0) ! i) - 1)"
    by blast
  from bytes have K: "K = KIND_4"
    by (simp add: KIND_bytes_4)
  have "storage 0 = Int32_t 5" "storage 1 = Int32_t 2"
    using written [of 0] written [of 1] by (simp_all add: dims K)
  with distinct allocated kind wf run shape show ?thesis
    by (simp add: rank_scenario)
qed

text \<open>
  Where the claim as written fails: with kind 1 the upper bound 200 is stored as -56;
  with kind 3 and with an allocator that reports status 12 the call ends fatally and
  there is no result; with the input descriptor as result the result has length 1 for
  an input of rank 2.
\<close>

theorem Ubound_counterexample:
  "map_option (\<lambda>h'. map_option (\<lambda>storage. elem_sint (storage 0)) (base_addr (h' 1)))
     (returned (Ubound ok_allocator wide_heap 1 0 1 ''a.f90'' 7)) = Some (Some (- 56))
 \<and> sint (lower_bound (raw_dim (wide_heap 0) ! 0) + extent (raw_dim (wide_heap 0) ! 0) - 1)
     = 200
 \<and> Ubound ok_allocator scenario_heap 1 0 3 ''a.f90'' 7 =
     Inl (UnrecognizedKind \<lparr>sourceFileName = ''a.f90'', sourceLine = 7\<rparr> 3)
 \<and> Ubound failing_allocator scenario_heap 1 0 4 ''a.f90'' 7 =
     Inl (Crash \<lparr>sourceFileName = ''a.f90'', sourceLine = 7\<rparr>
            ''UBOUND: could not allocate memory for result; STAT=%d'' [12])
 \<and> map_option (\<lambda>h'. sint (extent (GetDimension (h' 0) 0)))
     (returned (Ubound ok_allocator scenario_heap 0 0 8 ''a.f90'' 7)) = Some 1
 \<and> rank (scenario_heap 0) = 2"
proof -
  have narrow: "map_option (\<lambda>h'. map_option (\<lambda>storage. elem_sint (storage 0)) (base_addr (h' 1)))
     (returned (Ubound ok_allocator wide_heap 1 0 1 ''a.f90'' 7)) = Some (Some (- 56))"
    using Ubound_recognized [of ok_allocator 1 KIND_1 wide_heap 1 0 "''a.f90''" 7]
    by (simp add: ok_allocator_def established_def UpperBound_def LowerBound_def Extent_def
        wide_heap_def wide_array_def)
  have upper: "sint (lower_bound (raw_dim (wide_heap 0) ! 0)
      + extent (raw_dim (wide_heap 0) ! 0) - 1) = 200"
    by (simp add: wide_heap_def wide_array_def)
  have unknown: "Ubound ok_allocator scenario_heap 1 0 3 ''a.f90'' 7 =
     Inl (UnrecognizedKind \<lparr>sourceFileName = ''a.f90'', sourceLine = 7\<rparr> 3)"
    using Ubound_unrecognized [of ok_allocator 3 scenario_heap 1 0 "''a.f90''" 7]
    by (simp add: ok_allocator_def established_other rank_scenario)
  have failed: "Ubound failing_allocator scenario_heap 1 0 4 ''a.f90'' 7 =
     Inl (Crash \<lparr>sourceFileName = ''a.f90'', sourceLine = 7\<rparr>
            ''UBOUND: could not allocate memory for result; STAT=%d'' [12])"
    using Ubound_allocation_failed [of failing_allocator scenario_heap 1 0 4 "''a.f90''" 7]
    by (simp add: failing_allocator_def)
  have same: "map_option (\<lambda>h'. sint (extent (GetDimension (h' 0) 0)))
     (returned (Ubound ok_allocator scenario_heap 0 0 8 ''a.f90'' 7)) = Some 1"
    using Ubound_recognized [of ok_allocator 8 KIND_8 scenario_heap 0 0 "''a.f90''" 7]
    by (simp add: ok_allocator_def established_def SetBounds_def GetDimension_def)
  from narrow upper unknown failed same show ?thesis
    by (simp only: rank_scenario simp_thms)
qed

section \<open>Allocation failure\<close>

text \<open>
  C6. If the allocator reports a status other than 0, \<open>Ubound\<close> ends fatally with
  the diagnostic that carries that status and does not return; if it reports 0, no
  \<open>Crash\<close> diagnostic ends the call.
\<close>

theorem Ubound_allocation_failure_is_fatal:
  "(alloc_stat allocator \<noteq> 0 \<longrightarrow>
      Ubound allocator h result array kind sourceFile line =
        Inl (Crash \<lparr>sourceFileName = sourceFile, sourceLine = line\<rparr>
               ''UBOUND: could not allocate memory for result; STAT=%d''
               [sint (alloc_stat allocator)])
    \<and> returned (Ubound allocator h result array kind sourceFile line) = None)
 \<and> (alloc_stat allocator = 0 \<longrightarrow>
      (\<forall>terminator message arguments.
         Ubound allocator h result array kind sourceFile line \<noteq>
           Inl (Crash terminator message arguments)))"
proof (cases "alloc_stat allocator = 0")
  case False
  then show ?thesis
    by (simp add: Ubound_allocation_failed)
next
  case True
  let ?t = "\<lparr>sourceFileName = sourceFile, sourceLine = line\<rparr>"
  have "Ubound allocator h result array kind sourceFile line \<noteq>
           Inl (Crash terminator message arguments)" for terminator message arguments
  proof (cases "kind \<in> {1, 2, 4, 8, 16}")
    case False
    then show ?thesis
      by (simp add: Ubound_allocated [OF True] Ubound_loop_unrecognized)
  next
    case kind: True
    then obtain K where K: "kind = of_nat (KIND_bytes K)"
      by (rule recognized_kind_cases)
    show ?thesis
      unfolding Ubound_allocated [OF True]
      by (simp add: Ubound_loop_recognized [OF K base_addr_established])
  qed
  with True show ?thesis
    by simp
qed

theorem Ubound_allocation_failure_is_fatal_witness:
  "alloc_stat failing_allocator \<noteq> 0 \<and> alloc_stat ok_allocator = 0
 \<and> Ubound failing_allocator scenario_heap 1 0 4 ''a.f90'' 7 =
     Inl (Crash \<lparr>sourceFileName = ''a.f90'', sourceLine = 7\<rparr>
            ''UBOUND: could not allocate memory for result; STAT=%d'' [12])
 \<and> returned (Ubound failing_allocator scenario_heap 1 0 4 ''a.f90'' 7) = None
 \<and> Ubound ok_allocator scenario_heap 1 0 4 ''a.f90'' 7 \<noteq>
     Inl (Crash \<lparr>sourceFileName = ''a.f90'', sourceLine = 7\<rparr>
            ''UBOUND: could not allocate memory for result; STAT=%d'' [0])"
  using Ubound_allocation_failure_is_fatal
      [of failing_allocator scenario_heap 1 0 4 "''a.f90''" 7]
    Ubound_allocation_failure_is_fatal [of ok_allocator scenario_heap 1 0 4 "''a.f90''" 7]
  by (simp add: failing_allocator_def ok_allocator_def)

section \<open>The input descriptor is only read\<close>

text \<open>
  C8. Every one of the five entry points leaves the input array descriptor unchanged:
  when the call returns, the descriptor's rank, its per-axis lower bounds and its
  per-axis extents are those of before the call, and the descriptor is not freed: it is
  still the object at its address and its base address is the one it had, none of the
  entry points releasing its storage. \<open>LboundDim\<close>, \<open>Size\<close>, \<open>SizeDim\<close> and \<open>Shape\<close>
  return the whole store as it was; \<open>Ubound\<close> writes the result descriptor and no
  other. The arguments are those of the interface: the result of \<open>Ubound\<close> is an out
  descriptor, an object of its own and so not the input descriptor, and the result of
  \<open>Shape\<close> is the caller's buffer, memory apart from the descriptors.
\<close>

theorem input_descriptor_unchanged:
  assumes distinct: "result \<noteq> array"
  shows
  "(\<forall>v h'. LboundDim h array dim sourceFile line = Inr (v, h') \<longrightarrow>
      h' = h \<and> descriptor_kept (h array) (h' array))
 \<and> snd (Size h array sourceFile line) = h
 \<and> descriptor_kept (h array) (snd (Size h array sourceFile line) array)
 \<and> (\<forall>v h'. SizeDim h array dim sourceFile line = Inr (v, h') \<longrightarrow>
      h' = h \<and> descriptor_kept (h array) (h' array))
 \<and> (\<forall>result' h'. Shape h buf array kind = Inr (result', h') \<longrightarrow>
      h' = h \<and> descriptor_kept (h array) (h' array))
 \<and> (\<forall>h'. Ubound allocator h result array kind sourceFile line = Inr h' \<longrightarrow>
      h' array = h array \<and> descriptor_kept (h array) (h' array)
    \<and> (\<forall>a. a \<noteq> result \<longrightarrow> h' a = h a))"
proof -
  have kept: "descriptor_kept d d" for d
    by (simp add: descriptor_kept_def)
  have lbound: "h' = h" if "LboundDim h array dim sourceFile line = Inr (v, h')" for v h'
    using that by (auto simp: LboundDim_def Let_def split: if_splits)
  have size: "snd (Size h array sourceFile line) = h"
    by (simp add: Size_def)
  have sizedim: "h' = h" if "SizeDim h array dim sourceFile line = Inr (v, h')" for v h'
    using that by (auto simp: SizeDim_def Let_def split: if_splits)
  have shape: "h' = h" if "Shape h buf array kind = Inr (result', h')" for result' h'
    using that by (auto simp: Shape_def Let_def split: if_splits sum.splits)
  have ubound: "h' a = h a"
    if run: "Ubound allocator h result array kind sourceFile line = Inr h'"
      and other: "a \<noteq> result" for h' a
  proof -
    have stat: "alloc_stat allocator = 0"
      using run by (cases "alloc_stat allocator = 0") (simp_all add: Ubound_allocation_failed)
    show ?thesis
    proof (cases "kind \<in> {1, 2, 4, 8, 16}")
      case True
      then obtain K where K: "kind = of_nat (KIND_bytes K)"
        by (rule recognized_kind_cases)
      from run other show ?thesis
        unfolding Ubound_recognized [OF stat K]
        by (auto simp: established_other)
    next
      case False
      from run other show ?thesis
        unfolding Ubound_unrecognized [OF stat False]
        by (auto simp: established_other split: if_splits)
    qed
  qed
  have input: "h' array = h array"
    if "Ubound allocator h result array kind sourceFile line = Inr h'" for h'
    using ubound [OF that, of array] distinct by simp
  have first: "\<forall>v h'. LboundDim h array dim sourceFile line = Inr (v, h') \<longrightarrow>
      h' = h \<and> descriptor_kept (h array) (h' array)"
    using lbound kept by blast
  have second: "descriptor_kept (h array) (snd (Size h array sourceFile line) array)"
    unfolding size by (rule kept)
  have third: "\<forall>v h'. SizeDim h array dim sourceFile line = Inr (v, h') \<longrightarrow>
      h' = h \<and> descriptor_kept (h array) (h' array)"
    using sizedim kept by blast
  have fourth: "\<forall>result' h'. Shape h buf array kind = Inr (result', h') \<longrightarrow>
      h' = h \<and> descriptor_kept (h array) (h' array)"
    using shape kept by blast
  have fifth: "\<forall>h'. Ubound allocator h result array kind sourceFile line = Inr h' \<longrightarrow>
      h' array = h array \<and> descriptor_kept (h array) (h' array)
    \<and> (\<forall>a. a \<noteq> result \<longrightarrow> h' a = h a)"
  proof (intro allI impI conjI)
    fix h' assume run: "Ubound allocator h result array kind sourceFile line = Inr h'"
    show "h' array = h array"
      by (rule input [OF run])
    then show "descriptor_kept (h array) (h' array)"
      by (simp add: kept)
    show "h' a = h a" if "a \<noteq> result" for a
      by (rule ubound [OF run that])
  qed
  from first size second third fourth fifth show ?thesis
    by (intro conjI)
qed

theorem input_descriptor_unchanged_witness:
  "(1 :: addr) \<noteq> 0
 \<and> (\<exists>h'. Ubound ok_allocator scenario_heap 1 0 4 ''a.f90'' 7 = Inr h'
       \<and> h' 0 = scenario_array
       \<and> rank (h' 0) = 2
       \<and> map LowerBound (raw_dim (h' 0)) = [1, 0]
       \<and> map Extent (raw_dim (h' 0)) = [5, 3]
       \<and> base_addr (h' 0) = None)
 \<and> (\<exists>v. LboundDim scenario_heap 0 1 ''a.f90'' 7 = Inr (v, scenario_heap))
 \<and> snd (Size scenario_heap 0 ''a.f90'' 7) = scenario_heap
 \<and> (\<exists>v. SizeDim scenario_heap 0 1 ''a.f90'' 7 = Inr (v, scenario_heap))
 \<and> (\<exists>result'. Shape scenario_heap blank_buffer 0 4 = Inr (result', scenario_heap))"
proof -
  have distinct: "(1 :: addr) \<noteq> 0"
    by simp
  note frame = input_descriptor_unchanged
    [where result = 1 and array = 0 and h = scenario_heap and dim = 1
      and sourceFile = "''a.f90''" and line = 7 and buf = blank_buffer and kind = 4
      and allocator = ok_allocator, OF distinct]
  have before: "scenario_heap 0 = scenario_array"
    by (simp add: scenario_heap_def)
  obtain h1 where u: "Ubound ok_allocator scenario_heap 1 0 4 ''a.f90'' 7 = Inr h1"
    using Ubound_recognized [of ok_allocator 4 KIND_4 scenario_heap 1 0 "''a.f90''" 7]
    by (simp add: ok_allocator_def)
  with frame have same: "h1 0 = scenario_heap 0"
    and kept: "descriptor_kept (scenario_heap 0) (h1 0)"
    by blast+
  from kept have parts: "rank (h1 0) = 2" "map LowerBound (raw_dim (h1 0)) = [1, 0]"
    "map Extent (raw_dim (h1 0)) = [5, 3]" "base_addr (h1 0) = None"
    by (simp_all add: descriptor_kept_def before scenario_array_def rank_def
        LowerBound_def Extent_def)
  obtain v h2 where l: "LboundDim scenario_heap 0 1 ''a.f90'' 7 = Inr (v, h2)"
    by (simp add: LboundDim_def rank_scenario Let_def)
  with frame have h2: "h2 = scenario_heap"
    by blast
  have s: "snd (Size scenario_heap 0 ''a.f90'' 7) = scenario_heap"
    using frame by blast
  obtain w h3 where d: "SizeDim scenario_heap 0 1 ''a.f90'' 7 = Inr (w, h3)"
    by (simp add: SizeDim_def rank_scenario Let_def)
  with frame have h3: "h3 = scenario_heap"
    by blast
  obtain b h4 where p: "Shape scenario_heap blank_buffer 0 4 = Inr (b, h4)"
    using Shape_recognized [of scenario_heap 0 4 KIND_4 blank_buffer]
    by (simp add: rank_scenario maxRank_def)
  with frame have h4: "h4 = scenario_heap"
    by blast
  from u same parts have "\<exists>h'. Ubound ok_allocator scenario_heap 1 0 4 ''a.f90'' 7 = Inr h'
       \<and> h' 0 = scenario_array
       \<and> rank (h' 0) = 2
       \<and> map LowerBound (raw_dim (h' 0)) = [1, 0]
       \<and> map Extent (raw_dim (h' 0)) = [5, 3]
       \<and> base_addr (h' 0) = None"
    by (simp add: before)
  moreover from l h2 have "\<exists>v. LboundDim scenario_heap 0 1 ''a.f90'' 7 = Inr (v, scenario_heap)"
    by blast
  moreover from d h3 have "\<exists>v. SizeDim scenario_heap 0 1 ''a.f90'' 7 = Inr (v, scenario_heap)"
    by blast
  moreover from p h4 have "\<exists>result'. Shape scenario_heap blank_buffer 0 4 = Inr (result', scenario_heap)"
    by blast
  ultimately show ?thesis
    using distinct s by (intro conjI)
qed

section \<open>The source location\<close>

text \<open>
  C9. \<open>sourceFile\<close> and \<open>line\<close> have no effect on a computed result: two calls
  that differ in them only return the same scalar (\<open>LboundDim\<close>, \<open>Size\<close>,
  \<open>SizeDim\<close>) or leave the same store, hence the same result contents
  (\<open>Ubound\<close>), or both end fatally.
\<close>

theorem source_location_has_no_effect:
  "returned (LboundDim h array dim f1 l1) = returned (LboundDim h array dim f2 l2)
 \<and> Size h array f1 l1 = Size h array f2 l2
 \<and> returned (SizeDim h array dim f1 l1) = returned (SizeDim h array dim f2 l2)
 \<and> returned (Ubound allocator h result array kind f1 l1) =
     returned (Ubound allocator h result array kind f2 l2)"
proof -
  have "returned (Ubound allocator h result array kind f1 l1) =
        returned (Ubound allocator h result array kind f2 l2)"
  proof (cases "alloc_stat allocator = 0")
    case True
    then show ?thesis
      by (simp only: Ubound_allocated Ubound_loop_location
          [of _ _ _ _ "\<lparr>sourceFileName = f1, sourceLine = l1\<rparr>" _
              "\<lparr>sourceFileName = f2, sourceLine = l2\<rparr>"])
  next
    case False
    then show ?thesis
      by (simp add: Ubound_allocation_failed)
  qed
  then show ?thesis
    by (simp add: LboundDim_def SizeDim_def Size_def Let_def)
qed

theorem source_location_has_no_effect_witness:
  "returned (LboundDim scenario_heap 0 1 ''a.f90'' 7) =
   returned (LboundDim scenario_heap 0 1 ''b.f90'' 99)
 \<and> Size scenario_heap 0 ''a.f90'' 7 = Size scenario_heap 0 ''b.f90'' 99
 \<and> returned (SizeDim scenario_heap 0 1 ''a.f90'' 7) =
   returned (SizeDim scenario_heap 0 1 ''b.f90'' 99)
 \<and> returned (Ubound ok_allocator scenario_heap 1 0 4 ''a.f90'' 7) =
   returned (Ubound ok_allocator scenario_heap 1 0 4 ''b.f90'' 99)"
  by (rule source_location_has_no_effect)

end
